theory Spec2Isabelle
  imports Complex_Main
begin

section \<open>Implicit Gradient Transport optimizer (torch\_igt/igt.py)\<close>

text \<open>
  A shallow embedding of the class \<open>MomentumIGT\<close>: its constructor and its three
  methods \<open>step\<close>, \<open>train\<close> and \<open>eval\<close>.

  Conventions of the embedding.
  \<^item> A tensor is the list of its elements. Scalars and elements are real numbers: the
    arithmetic is the exact one, rounding of floating point numbers is not part of the model.
  \<^item> All tensors attached to one parameter have the shape of the parameter, as the tensor
    library enforces for \<open>p.grad\<close> and as \<open>zeros_like\<close> and \<open>clone\<close> produce.
  \<^item> The dictionary \<open>self.state[p]\<close> is keyed by the identity of the parameter, and a
    parameter belongs to one group. The three entries it can hold are therefore fields of the
    parameter record, each optional: \<open>None\<close> is a key that is not in the dictionary. The
    dictionary is a \<open>defaultdict\<close>, so a parameter never seen before has the empty
    dictionary, which is all three fields \<open>None\<close>.
  \<^item> A method mutates the optimizer in place and may raise. It is modelled as a function
    returning the exception raised, if any, together with the optimizer as the call leaves it,
    including what was already written when the exception was raised.
  \<^item> \<open>num_steps\<close> is a Python integer, hence \<open>int\<close>; the hyperparameters are read from the
    group at every call, as the source does, whatever values the group holds.
  \<^item> Not modelled: \<open>__setstate__\<close> (unpickling), the sentinel \<open>required\<close> for a missing
    \<open>lr\<close> (the base class refuses it), and a closure that raises.
\<close>

subsection \<open>Data\<close>

type_synonym tensor = "real list"

datatype error =
    Invalid_weight_decay real     \<comment> \<open>ValueError("Invalid weight\_decay value: ...")\<close>
  | Invalid_delta real            \<comment> \<open>ValueError("Invalid delta value: ...")\<close>
  | Nesterov_requires_momentum    \<comment> \<open>ValueError("Nesterov momentum requires a momentum and zero dampening")\<close>
  | Empty_parameter_list          \<comment> \<open>ValueError of the base class constructor\<close>
  | KeyError string
  | ZeroDivisionError

record param =
  data :: tensor                          \<comment> \<open>\<open>p.data\<close>, the value the model sees\<close>
  grad :: "tensor option"                 \<comment> \<open>\<open>p.grad.data\<close>, or \<open>None\<close> when \<open>p.grad is None\<close>\<close>
  igt_velocity :: "tensor option"         \<comment> \<open>\<open>self.state[p]['igt_velocity']\<close>\<close>
  true_params :: "tensor option"          \<comment> \<open>\<open>self.state[p]['true_params']\<close>\<close>
  momentum_velocity :: "tensor option"    \<comment> \<open>\<open>self.state[p]['momentum_velocity']\<close>\<close>

record defaults =
  lr :: real
  momentum :: real
  dampening :: real
  weight_decay :: real
  nesterov :: bool
  delta :: real
  num_steps :: int
  transported :: bool

record group = defaults +
  params :: "param list"

type_synonym optimizer = "group list"

subsection \<open>Tensor operations used by the optimizer\<close>

definition zeros_like :: "tensor \<Rightarrow> tensor" where
  "zeros_like t = map (\<lambda>_. 0) t"

text \<open>\<open>t.add_(other)\<close>\<close>

definition add_t :: "tensor \<Rightarrow> tensor \<Rightarrow> tensor" where
  "add_t t other = map2 (\<lambda>x y. x + y) t other"

text \<open>\<open>t.add_(alpha, other)\<close>: \<open>t += alpha * other\<close>\<close>

definition add_scaled :: "tensor \<Rightarrow> real \<Rightarrow> tensor \<Rightarrow> tensor" where
  "add_scaled t alpha other = map2 (\<lambda>x y. x + alpha * y) t other"

text \<open>\<open>t.mul_(c)\<close>\<close>

definition mul_t :: "tensor \<Rightarrow> real \<Rightarrow> tensor" where
  "mul_t t c = map (\<lambda>x. x * c) t"

subsection \<open>Exceptions and loops\<close>

text \<open>Python's true division: a zero divisor raises.\<close>

definition pydiv :: "real \<Rightarrow> real \<Rightarrow> error + real" where
  "pydiv a b = (if b = 0 then Inl ZeroDivisionError else Inr (a / b))"

text \<open>
  A \<open>for\<close> loop whose body mutates the element it visits: the loop stops at the first
  exception, the elements after it are left as they were.
\<close>

fun for_each :: "('a \<Rightarrow> error option \<times> 'a) \<Rightarrow> 'a list \<Rightarrow> error option \<times> 'a list" where
  "for_each f [] = (None, [])"
| "for_each f (x # xs) =
     (case f x of
        (Some e, x') \<Rightarrow> (Some e, x' # xs)
      | (None, x') \<Rightarrow> (case for_each f xs of (r, xs') \<Rightarrow> (r, x' # xs')))"

subsection \<open>Construction\<close>

text \<open>
  \<open>__init__\<close>. The constructor of the base class \<open>Optimizer\<close> belongs to the tensor
  library, not to this repository: it is the parameter \<open>base\<close>, called with the parameters
  and the dictionary of defaults when none of the checks has raised.
\<close>

definition init ::
  "(param list \<Rightarrow> defaults \<Rightarrow> error + optimizer) \<Rightarrow> param list \<Rightarrow>
     real \<Rightarrow> real \<Rightarrow> real \<Rightarrow> real \<Rightarrow> bool \<Rightarrow> real \<Rightarrow> error + optimizer" where
  "init base ps lr' momentum' dampening' weight_decay' nesterov' delta' =
     (if weight_decay' < 0 then Inl (Invalid_weight_decay weight_decay')
      else if delta' \<le> 0 then Inl (Invalid_delta delta')
      else
        (let dflt = \<lparr> lr = lr', momentum = momentum', dampening = dampening',
                      weight_decay = weight_decay', nesterov = nesterov', delta = delta',
                      num_steps = 0, transported = True \<rparr>
         in if nesterov' \<and> (momentum' \<le> 0 \<or> dampening' \<noteq> 0)
            then Inl Nesterov_requires_momentum
            else base ps dflt))"

text \<open>
  The base class constructor as the tensor library documents it, for a plain list of
  parameters: an empty list is refused, otherwise the optimizer has one group holding the
  parameters and a copy of the defaults, and no per-parameter state.
\<close>

definition optimizer_init :: "param list \<Rightarrow> defaults \<Rightarrow> error + optimizer" where
  "optimizer_init ps d =
     (if ps = [] then Inl Empty_parameter_list
      else Inr [\<lparr> lr = lr d, momentum = momentum d, dampening = dampening d,
                  weight_decay = weight_decay d, nesterov = nesterov d, delta = delta d,
                  num_steps = num_steps d, transported = transported d, params = ps \<rparr>])"

text \<open>A parameter tensor handed to the constructor: a value, no gradient yet, no state.\<close>

definition new_param :: "tensor \<Rightarrow> param" where
  "new_param v = \<lparr> data = v, grad = None, igt_velocity = None, true_params = None,
                   momentum_velocity = None \<rparr>"

text \<open>\<open>loss.backward()\<close> of the caller, seen from the optimizer: the gradient is stored.\<close>

definition set_grad :: "tensor option \<Rightarrow> param \<Rightarrow> param" where
  "set_grad g p = p\<lparr> grad := g \<rparr>"

subsection \<open>step\<close>

text \<open>
  Lines 111 to 126: the branch \<open>num_steps == 0\<close>. The buffers that are missing are
  created, then the first values are computed. \<open>d_p\<close> is the gradient buffer.
\<close>

definition init_buffers :: "real \<Rightarrow> param \<Rightarrow> param" where
  "init_buffers mom p =
     (let p1 = (if igt_velocity p = None
                then p\<lparr> igt_velocity := Some (zeros_like (data p)) \<rparr> else p);
          p2 = (if true_params p1 = None
                then p1\<lparr> true_params := Some (data p1) \<rparr> else p1)
      in if mom \<noteq> 0 \<and> momentum_velocity p2 = None
         then p2\<lparr> momentum_velocity := Some (zeros_like (data p2)) \<rparr> else p2)"

definition first_step :: "real \<Rightarrow> tensor \<Rightarrow> param \<Rightarrow> error option \<times> param" where
  "first_step mom d_p p0 =
     (let p = init_buffers mom p0 in
      case igt_velocity p of
        None \<Rightarrow> (Some (KeyError ''igt_velocity''), p)
      | Some iv \<Rightarrow>
          (case true_params p of
             None \<Rightarrow> (Some (KeyError ''true_params''), p)
           | Some tp \<Rightarrow>
               (let iv' = add_t iv d_p;
                    p1 = p\<lparr> igt_velocity := Some iv' \<rparr>
                in if mom \<noteq> 0
                   then (case momentum_velocity p1 of
                           None \<Rightarrow> (Some (KeyError ''momentum_velocity''), p1)
                         | Some mv \<Rightarrow> (None, p1\<lparr> momentum_velocity := Some (add_t mv iv') \<rparr>))
                   else (None, p1))))"

text \<open>Lines 129 to 140: the branch \<open>num_steps \<noteq> 0\<close>, which reads the buffers.\<close>

definition igt_update :: "real \<Rightarrow> real \<Rightarrow> real \<Rightarrow> tensor \<Rightarrow> param \<Rightarrow> error option \<times> param" where
  "igt_update mom damp gamma d_p p =
     (case igt_velocity p of
        None \<Rightarrow> (Some (KeyError ''igt_velocity''), p)
      | Some iv \<Rightarrow>
          (case true_params p of
             None \<Rightarrow> (Some (KeyError ''true_params''), p)
           | Some tp \<Rightarrow>
               (let iv' = add_scaled (mul_t iv gamma) (1 - gamma) d_p;
                    p1 = p\<lparr> igt_velocity := Some iv' \<rparr>
                in if mom \<noteq> 0
                   then (case momentum_velocity p1 of
                           None \<Rightarrow> (Some (KeyError ''momentum_velocity''), p1)
                         | Some mv \<Rightarrow>
                             (None, p1\<lparr> momentum_velocity :=
                                           Some (add_scaled (mul_t mv mom) (1 - damp) iv') \<rparr>))
                   else (None, p1))))"

text \<open>
  Lines 142 to 166: the true parameters advance and \<open>p.data\<close> is set to the transported
  ones. The names \<open>igt_velocity\<close> and \<open>true_params\<close> of the source are the buffers of the
  state, bound in the branch taken before; \<open>momentum_velocity\<close> is looked up again.
\<close>

definition update_params :: "real \<Rightarrow> real \<Rightarrow> bool \<Rightarrow> real \<Rightarrow> param \<Rightarrow> error option \<times> param" where
  "update_params lr' mom nest future_transport p =
     (case igt_velocity p of
        None \<Rightarrow> (Some (KeyError ''igt_velocity''), p)
      | Some iv \<Rightarrow>
          (case true_params p of
             None \<Rightarrow> (Some (KeyError ''true_params''), p)
           | Some tp \<Rightarrow>
               (if mom = 0 then
                  (let tp' = add_scaled tp (- lr') iv
                   in (None, p\<lparr> true_params := Some tp',
                                data := add_scaled tp' (- lr' * future_transport) iv \<rparr>))
                else
                  (case momentum_velocity p of
                     None \<Rightarrow> (Some (KeyError ''momentum_velocity''), p)
                   | Some mv \<Rightarrow>
                       (if nest then
                          (let tp' = add_scaled (add_scaled tp (- lr') iv) (- lr' * mom) mv
                           in (None, p\<lparr> true_params := Some tp',
                                        data := add_scaled
                                                  (add_scaled tp' (- lr' * future_transport) iv)
                                                  (- lr' * mom * future_transport) mv \<rparr>))
                        else
                          (let tp' = add_scaled tp (- lr') mv
                           in (None, p\<lparr> true_params := Some tp',
                                        data := add_scaled tp' (- lr' * future_transport) mv \<rparr>)))))))"

text \<open>
  The body of the loop over the parameters of a group (lines 98 to 166). Weight decay is
  added in place into the gradient buffer, scaled from \<open>p.data\<close>.
\<close>

definition step_param :: "group \<Rightarrow> real \<Rightarrow> real \<Rightarrow> param \<Rightarrow> error option \<times> param" where
  "step_param g gamma future_transport p =
     (case grad p of
        None \<Rightarrow> (None, p)
      | Some g0 \<Rightarrow>
          (let d_p = (if weight_decay g \<noteq> 0 then add_scaled g0 (weight_decay g) (data p) else g0);
               p1 = p\<lparr> grad := Some d_p \<rparr>
           in case (if num_steps g = 0 then first_step (momentum g) d_p p1
                    else igt_update (momentum g) (dampening g) gamma d_p p1) of
                (Some e, p2) \<Rightarrow> (Some e, p2)
              | (None, p2) \<Rightarrow> update_params (lr g) (momentum g) (nesterov g) future_transport p2))"

text \<open>
  Lines 94 to 96: the coefficients of a group, from its \<open>num_steps\<close> and \<open>delta\<close>.
  The result is \<open>gamma\<close> and \<open>future_transport\<close>. The divisions are those of the reals:
  the divisor \<open>1 - future_gamma\<close> is zero only where it is zero exactly. The source divides
  doubles, where \<open>future_gamma\<close> rounds to 1.0 for a very small \<open>delta\<close> and line 96 then
  raises. No property below says that the coefficients exist for every \<open>delta > 0\<close>: what
  depends on them is stated for a call that returns.
\<close>

definition coefficients :: "int \<Rightarrow> real \<Rightarrow> error + real \<times> real" where
  "coefficients n dl =
     (case pydiv (real_of_int n) (real_of_int n + dl) of
        Inl e \<Rightarrow> Inl e
      | Inr gamma \<Rightarrow>
          (case pydiv (real_of_int (n + 1)) (real_of_int (n + 1) + dl) of
             Inl e \<Rightarrow> Inl e
           | Inr future_gamma \<Rightarrow>
               (case pydiv future_gamma (1 - future_gamma) of
                  Inl e \<Rightarrow> Inl e
                | Inr future_transport \<Rightarrow> Inr (gamma, future_transport))))"

text \<open>The body of the loop over the groups (lines 85 to 168).\<close>

definition step_group :: "group \<Rightarrow> error option \<times> group" where
  "step_group g =
     (case coefficients (num_steps g) (delta g) of
        Inl e \<Rightarrow> (Some e, g)
      | Inr (gamma, future_transport) \<Rightarrow>
          (case for_each (step_param g gamma future_transport) (params g) of
             (Some e, ps) \<Rightarrow> (Some e, g\<lparr> params := ps \<rparr>)
           | (None, ps) \<Rightarrow> (None, g\<lparr> params := ps, num_steps := num_steps g + 1 \<rparr>)))"

text \<open>
  \<open>step(closure)\<close>. The closure is code of the caller: it returns the loss and may
  store new gradients. The result is the exception, the loss and the optimizer.
\<close>

definition step ::
  "(optimizer \<Rightarrow> real \<times> optimizer) option \<Rightarrow> optimizer \<Rightarrow> error option \<times> real option \<times> optimizer" where
  "step closure opt =
     (case (case closure of None \<Rightarrow> (None, opt) | Some c \<Rightarrow> (case c opt of (l, s) \<Rightarrow> (Some l, s))) of
        (loss, opt1) \<Rightarrow> (case for_each step_group opt1 of (e, opt2) \<Rightarrow> (e, loss, opt2)))"

subsection \<open>train and eval\<close>

definition train_param :: "real \<Rightarrow> real \<Rightarrow> bool \<Rightarrow> real \<Rightarrow> param \<Rightarrow> error option \<times> param" where
  "train_param lr' mom nest transport p =
     (case igt_velocity p of
        None \<Rightarrow> (Some (KeyError ''igt_velocity''), p)
      | Some iv \<Rightarrow>
          (case true_params p of
             None \<Rightarrow> (Some (KeyError ''true_params''), p)
           | Some tp \<Rightarrow>
               (let p1 = p\<lparr> data := tp \<rparr>
                in if mom = 0 then (None, p1\<lparr> data := add_scaled (data p1) (- lr' * transport) iv \<rparr>)
                   else
                     (case momentum_velocity p1 of
                        None \<Rightarrow> (Some (KeyError ''momentum_velocity''), p1)
                      | Some mv \<Rightarrow>
                          (if nest then
                             (None, p1\<lparr> data := add_scaled
                                                  (add_scaled (data p1) (- lr' * transport) iv)
                                                  (- lr' * mom * transport) mv \<rparr>)
                           else (None, p1\<lparr> data := add_scaled (data p1) (- lr' * transport) mv \<rparr>))))))"

definition train_group :: "group \<Rightarrow> error option \<times> group" where
  "train_group g =
     (case pydiv (real_of_int (num_steps g)) (real_of_int (num_steps g) + delta g) of
        Inl e \<Rightarrow> (Some e, g)
      | Inr gamma \<Rightarrow>
          (case pydiv gamma (1 - gamma) of
             Inl e \<Rightarrow> (Some e, g)
           | Inr transport \<Rightarrow>
               (if \<not> transported g \<and> num_steps g > 0 then
                  (case for_each (train_param (lr g) (momentum g) (nesterov g) transport) (params g) of
                     (Some e, ps) \<Rightarrow> (Some e, g\<lparr> params := ps \<rparr>)
                   | (None, ps) \<Rightarrow> (None, g\<lparr> params := ps, transported := True \<rparr>))
                else (None, g))))"

definition train :: "optimizer \<Rightarrow> error option \<times> optimizer" where
  "train opt = for_each train_group opt"

definition eval_param :: "param \<Rightarrow> error option \<times> param" where
  "eval_param p =
     (case true_params p of
        None \<Rightarrow> (Some (KeyError ''true_params''), p)
      | Some tp \<Rightarrow> (None, p\<lparr> data := tp \<rparr>))"

definition eval_group :: "group \<Rightarrow> error option \<times> group" where
  "eval_group g =
     (if transported g then
        (case for_each eval_param (params g) of
           (Some e, ps) \<Rightarrow> (Some e, g\<lparr> params := ps \<rparr>)
         | (None, ps) \<Rightarrow> (None, g\<lparr> params := ps, transported := False \<rparr>))
      else (None, g))"

definition eval :: "optimizer \<Rightarrow> error option \<times> optimizer" where
  "eval opt = for_each eval_group opt"

subsection \<open>The caller\<close>

text \<open>
  What the training loop around the optimizer does between two calls of \<open>step\<close>: the
  backward pass stores a gradient, or none, for every parameter of every group.
\<close>

definition set_grads :: "tensor option list \<Rightarrow> group \<Rightarrow> group" where
  "set_grads gs g = g\<lparr> params := map2 set_grad gs (params g) \<rparr>"

definition backward :: "tensor option list list \<Rightarrow> optimizer \<Rightarrow> optimizer" where
  "backward gss opt = map2 set_grads gss opt"

text \<open>
  A training loop: one backward pass and one call of \<open>step\<close> without closure for each
  element of the list, until a call raises.
\<close>

fun training_loop :: "tensor option list list list \<Rightarrow> optimizer \<Rightarrow> error option \<times> optimizer" where
  "training_loop [] opt = (None, opt)"
| "training_loop (gss # rest) opt =
     (case step None (backward gss opt) of
        (Some e, loss, opt') \<Rightarrow> (Some e, opt')
      | (None, loss, opt') \<Rightarrow> training_loop rest opt')"

subsection \<open>Per-parameter state\<close>

text \<open>
  The buffers that the branch \<open>num_steps \<noteq> 0\<close> of \<open>step\<close> reads are in the state of the
  parameter.
\<close>

definition has_state :: "real \<Rightarrow> param \<Rightarrow> bool" where
  "has_state mom p \<longleftrightarrow>
     igt_velocity p \<noteq> None \<and> true_params p \<noteq> None \<and> (mom \<noteq> 0 \<longrightarrow> momentum_velocity p \<noteq> None)"


section \<open>Properties\<close>

lemmas tensor_defs = zeros_like_def add_t_def add_scaled_def mul_t_def

lemmas construct_defs = init_def optimizer_init_def new_param_def

lemmas caller_defs = set_grads_def set_grad_def backward_def

lemmas step_defs = step_def step_group_def coefficients_def pydiv_def step_param_def
  first_step_def igt_update_def init_buffers_def update_params_def Let_def

lemmas mode_defs = train_def train_group_def train_param_def eval_def eval_group_def
  eval_param_def pydiv_def Let_def

subsection \<open>Loops\<close>

lemma for_each_length: "for_each f xs = (r, ys) \<Longrightarrow> length ys = length xs"
  by (induction xs arbitrary: r ys) (auto split: prod.splits option.splits)

lemma for_each_ok: "for_each f xs = (None, ys) \<Longrightarrow> ys = map (\<lambda>x. snd (f x)) xs \<and> (\<forall>x \<in> set xs. fst (f x) = None)"
  by (induction xs arbitrary: ys) (auto split: prod.splits option.splits)

lemma for_each_nth:
  "for_each f xs = (r, ys) \<Longrightarrow> i < length xs \<Longrightarrow> ys ! i = xs ! i \<or> ys ! i = snd (f (xs ! i))"
proof (induction xs arbitrary: r ys i)
  case Nil then show ?case by simp
next
  case (Cons x xs)
  obtain e x' where fx: "f x = (e, x')" by (cases "f x")
  show ?case
  proof (cases e)
    case (Some a)
    with fx Cons.prems show ?thesis by (cases i) auto
  next
    case None
    obtain r' xs' where rec: "for_each f xs = (r', xs')" by (cases "for_each f xs")
    with fx None Cons.prems have ys: "ys = x' # xs'" by simp
    show ?thesis
    proof (cases i)
      case 0 with ys fx show ?thesis by simp
    next
      case (Suc j)
      with Cons.prems have "j < length xs" by simp
      from Cons.IH[OF rec this] ys Suc show ?thesis by simp
    qed
  qed
qed

lemma for_each_returns:
  "\<forall>x \<in> set xs. fst (f x) = None \<Longrightarrow> fst (for_each f xs) = None"
proof (induction xs)
  case Nil
  then show ?case by simp
next
  case (Cons x xs)
  obtain x' where "f x = (None, x')" using Cons.prems by (cases "f x") auto
  moreover have "fst (for_each f xs) = None" using Cons by simp
  ultimately show ?case by (auto split: prod.splits)
qed

lemma for_each_map_inv:
  "\<forall>x \<in> set xs. h (snd (f x)) = h x \<Longrightarrow> map h (snd (for_each f xs)) = map h xs"
proof (induction xs)
  case Nil
  then show ?case by simp
next
  case (Cons x xs)
  obtain e x' where fx: "f x = (e, x')" by (cases "f x")
  with Cons.prems have hx: "h x' = h x" by auto
  have rest: "map h (snd (for_each f xs)) = map h xs" using Cons by simp
  show ?case
  proof (cases e)
    case None
    with fx hx rest show ?thesis by (auto split: prod.splits)
  next
    case (Some a)
    with fx hx show ?thesis by simp
  qed
qed

subsection \<open>Frame: gradient\<close>

lemma init_buffers_grad: "grad (init_buffers m p) = grad p"
  by (simp add: init_buffers_def Let_def)

lemma init_buffers_data: "data (init_buffers m p) = data p"
  by (simp add: init_buffers_def Let_def)

lemma first_step_grad: "grad (snd (first_step m d p)) = grad p"
  by (simp add: first_step_def Let_def init_buffers_grad split: option.splits)

lemma igt_update_grad: "grad (snd (igt_update m dm gm d p)) = grad p"
  by (simp add: igt_update_def Let_def split: option.splits)

lemma update_params_grad: "grad (snd (update_params l m n ft p)) = grad p"
  by (simp add: update_params_def Let_def split: option.splits)

lemma step_param_grad:
  "grad (snd (step_param g gm ft p)) =
     map_option (\<lambda>d. if weight_decay g \<noteq> 0 then add_scaled d (weight_decay g) (data p) else d) (grad p)"
proof (cases "grad p")
  case None
  then show ?thesis by (simp add: step_param_def)
next
  case (Some d)
  let ?d = "if weight_decay g \<noteq> 0 then add_scaled d (weight_decay g) (data p) else d"
  let ?p1 = "p\<lparr> grad := Some ?d \<rparr>"
  let ?r = "if num_steps g = 0 then first_step (momentum g) ?d ?p1
            else igt_update (momentum g) (dampening g) gm ?d ?p1"
  have r: "grad (snd ?r) = Some ?d"
    by (simp add: first_step_grad igt_update_grad)
  obtain e p2 where rr: "?r = (e, p2)" by (cases ?r)
  with r have p2: "grad p2 = Some ?d" by simp
  have "step_param g gm ft p = (case e of Some x \<Rightarrow> (Some x, p2) | None \<Rightarrow> update_params (lr g) (momentum g) (nesterov g) ft p2)"
    using Some rr by (simp add: step_param_def Let_def split: option.splits)
  then have "grad (snd (step_param g gm ft p)) = grad p2"
    by (cases e) (simp_all add: update_params_grad)
  with p2 Some show ?thesis by simp
qed

lemma step_param_no_grad: "grad p = None \<Longrightarrow> step_param g gm ft p = (None, p)"
  by (simp add: step_param_def)

subsection \<open>Groups\<close>

lemma step_group_params:
  "params (snd (step_group g)) = params g \<or>
   (\<exists>gm ft. coefficients (num_steps g) (delta g) = Inr (gm, ft) \<and>
      params (snd (step_group g)) = snd (for_each (step_param g gm ft) (params g)))"
  by (auto simp: step_group_def split: sum.splits prod.splits option.splits)

lemma step_group_ok:
  assumes "step_group g = (None, g')"
  shows "\<exists>gm ft. coefficients (num_steps g) (delta g) = Inr (gm, ft) \<and>
           for_each (step_param g gm ft) (params g) = (None, params g') \<and>
           g' = g\<lparr> params := params g', num_steps := num_steps g + 1 \<rparr>"
  using assms by (auto simp: step_group_def split: sum.splits prod.splits option.splits)

lemma step_group_weight_decay: "weight_decay (snd (step_group g)) = weight_decay g"
  by (auto simp: step_group_def split: sum.splits prod.splits option.splits)

lemma step_group_grads_no_decay:
  assumes "weight_decay g = 0"
  shows "map grad (params (snd (step_group g))) = map grad (params g)"
proof -
  have "map grad (snd (for_each (step_param g gm ft) (params g))) = map grad (params g)" for gm ft
    by (rule for_each_map_inv) (simp add: step_param_grad assms option.map_ident)
  with step_group_params[of g] show ?thesis by auto
qed

lemma step_group_grads_ok:
  assumes "step_group g = (None, g')"
  shows "map grad (params g') =
           map (\<lambda>p. map_option (\<lambda>d. if weight_decay g \<noteq> 0
                                      then add_scaled d (weight_decay g) (data p) else d) (grad p))
               (params g)"
proof -
  from step_group_ok[OF assms] obtain gm ft where
    "for_each (step_param g gm ft) (params g) = (None, params g')" by blast
  from for_each_ok[OF this] have "params g' = map (\<lambda>x. snd (step_param g gm ft x)) (params g)"
    by simp
  then have "map grad (params g') = map (\<lambda>x. grad (snd (step_param g gm ft x))) (params g)"
    by (simp add: comp_def)
  then show ?thesis by (simp add: step_param_grad)
qed

lemma step_group_skips:
  assumes "i < length (params g)" and "grad (params g ! i) = None"
  shows "params (snd (step_group g)) ! i = params g ! i"
proof -
  have "snd (for_each (step_param g gm ft) (params g)) ! i = params g ! i" for gm ft
  proof -
    obtain r ys where fe: "for_each (step_param g gm ft) (params g) = (r, ys)"
      by (cases "for_each (step_param g gm ft) (params g)")
    from for_each_nth[OF fe assms(1)] assms(2) have "ys ! i = params g ! i"
      by (auto simp: step_param_no_grad)
    with fe show ?thesis by simp
  qed
  with step_group_params[of g] show ?thesis by auto
qed

lemma step_group_counts: "step_group g = (None, g') \<Longrightarrow> num_steps g' = num_steps g + 1"
  by (auto simp: step_group_def split: sum.splits prod.splits option.splits)

lemma step_no_closure: "step None opt = (e, l, opt') \<longleftrightarrow> for_each step_group opt = (e, opt') \<and> l = None"
  by (auto simp: step_def split: prod.splits)

subsection \<open>When a step returns\<close>

lemma coefficients_gamma:
  "coefficients n dl = Inr (gm, ft) \<Longrightarrow> gm = real_of_int n / (real_of_int n + dl)"
  by (auto simp: coefficients_def pydiv_def split: sum.splits if_splits)

lemma step_param_returns:
  assumes "num_steps g = 0 \<or> has_state (momentum g) p"
  shows "fst (step_param g gm ft p) = None"
  using assms
  by (auto simp: has_state_def step_param_def first_step_def igt_update_def update_params_def
      init_buffers_def Let_def split: option.splits prod.splits if_splits)

lemma step_group_returns:
  assumes "coefficients (num_steps g) (delta g) = Inr (gm, ft)"
    and "num_steps g = 0 \<or> (\<forall>p \<in> set (params g). grad p = None \<or> has_state (momentum g) p)"
  shows "fst (step_group g) = None"
proof -
  have "\<forall>p \<in> set (params g). fst (step_param g gm ft p) = None"
  proof
    fix p assume "p \<in> set (params g)"
    with assms(2) consider "grad p = None" | "num_steps g = 0 \<or> has_state (momentum g) p" by auto
    then show "fst (step_param g gm ft p) = None"
      by cases (simp_all add: step_param_no_grad step_param_returns)
  qed
  then have "fst (for_each (step_param g gm ft) (params g)) = None" by (rule for_each_returns)
  then show ?thesis
    by (auto simp: step_group_def assms(1) split: prod.splits option.splits)
qed

subsection \<open>The velocity update\<close>

lemma step_ok_group:
  assumes "step None opt = (None, l, opt')" and "j < length opt"
  shows "step_group (opt ! j) = (None, opt' ! j)"
proof -
  from assms(1) have "for_each step_group opt = (None, opt')" by (simp add: step_no_closure)
  from for_each_ok[OF this] assms(2) have "opt' ! j = snd (step_group (opt ! j))"
    and "fst (step_group (opt ! j)) = None" by simp_all
  then show ?thesis by (simp add: prod_eq_iff)
qed

lemma update_params_velocity:
  "igt_velocity (snd (update_params l m n ft p)) = igt_velocity p"
  by (simp add: update_params_def Let_def split: option.splits)

lemma step_param_velocity:
  assumes "step_param g gm ft p = (None, p')" and "grad p = Some d"
  shows "(num_steps g = 0 \<longrightarrow>
            igt_velocity p' =
              Some (add_t (case igt_velocity p of None \<Rightarrow> zeros_like (data p) | Some v \<Rightarrow> v)
                      (if weight_decay g \<noteq> 0 then add_scaled d (weight_decay g) (data p) else d))) \<and>
         (num_steps g \<noteq> 0 \<longrightarrow>
            (\<exists>iv. igt_velocity p = Some iv \<and>
                  igt_velocity p' =
                    Some (add_scaled (mul_t iv gm) (1 - gm)
                            (if weight_decay g \<noteq> 0 then add_scaled d (weight_decay g) (data p) else d))))"
proof -
  let ?eg = "if weight_decay g \<noteq> 0 then add_scaled d (weight_decay g) (data p) else d"
  let ?p1 = "p\<lparr> grad := Some ?eg \<rparr>"
  let ?r = "if num_steps g = 0 then first_step (momentum g) ?eg ?p1
            else igt_update (momentum g) (dampening g) gm ?eg ?p1"
  obtain e p2 where rr: "?r = (e, p2)" by (cases ?r)
  have sp: "step_param g gm ft p =
          (case e of Some x \<Rightarrow> (Some x, p2) | None \<Rightarrow> update_params (lr g) (momentum g) (nesterov g) ft p2)"
    using assms(2) rr by (simp add: step_param_def Let_def split: option.splits)
  with assms(1) have e: "e = None" by (cases e) simp_all
  with sp assms(1) have "update_params (lr g) (momentum g) (nesterov g) ft p2 = (None, p')"
    by simp
  then have "igt_velocity p' = igt_velocity p2"
    using update_params_velocity[of "lr g" "momentum g" "nesterov g" ft p2] by simp
  moreover have "num_steps g = 0 \<longrightarrow> igt_velocity p2 =
              Some (add_t (case igt_velocity p of None \<Rightarrow> zeros_like (data p) | Some v \<Rightarrow> v) ?eg)"
    using rr e by (auto simp: first_step_def init_buffers_def Let_def split: option.splits if_splits)
  moreover have "num_steps g \<noteq> 0 \<longrightarrow> (\<exists>iv. igt_velocity p = Some iv \<and>
                  igt_velocity p2 = Some (add_scaled (mul_t iv gm) (1 - gm) ?eg))"
    using rr e by (auto simp: igt_update_def Let_def split: option.splits if_splits)
  ultimately show ?thesis by simp
qed

subsection \<open>Tensors\<close>


lemma nth_add_scaled:
  "k < length t \<Longrightarrow> k < length u \<Longrightarrow> add_scaled t a u ! k = t ! k + a * u ! k"
  by (simp add: add_scaled_def)







lemma length_zeros_like: "length (zeros_like v) = length v"
  by (simp add: zeros_like_def)

subsection \<open>Runs of one parameter from rest\<close>











subsection \<open>A first step, computed\<close>

text \<open>
  Claim C1. One parameter of shape (1,) with value 1.0, \<open>lr = 0.1\<close>, \<open>delta = 1.0\<close>,
  no momentum and no weight decay. At \<open>num_steps = 0\<close> the coefficient
  \<open>future_transport\<close> is \<open>(1/2) / (1 - 1/2) = 1\<close>. After the first call of \<open>step\<close> with
  the gradient 2.0 the buffer \<open>igt_velocity\<close> holds 2.0, \<open>true_params\<close> holds
  \<open>1.0 - 0.1 * 2.0 = 0.8\<close> and the exposed value \<open>p.data\<close> is
  \<open>0.8 - 0.1 * 1 * 2.0 = 0.6\<close>. The call raises nothing and the group has counted one step.
\<close>

theorem first_step_values:
  "coefficients 0 1 = Inr (0, 1) \<and>
   (case init optimizer_init [new_param [1]] (1/10) 0 0 0 False 1 of
      Inl e \<Rightarrow> False
    | Inr opt \<Rightarrow>
        step None (backward [[Some [2]]] opt) =
          (None, None,
           [\<lparr> lr = 1/10, momentum = 0, dampening = 0, weight_decay = 0, nesterov = False,
               delta = 1, num_steps = 1, transported = True,
               params = [\<lparr> data = [3/5], grad = Some [2], igt_velocity = Some [2],
                            true_params = Some [4/5], momentum_velocity = None \<rparr>] \<rparr>]))"
  by (simp add: construct_defs caller_defs step_defs tensor_defs)

subsection \<open>Gradient buffers\<close>

text \<open>
  Claim C4, as the code has it. Weight decay is added in place into the gradient buffer of
  the caller (\<open>d_p.add_(weight_decay, p.data)\<close> on \<open>p.grad.data\<close>), and nothing else writes
  to it. So in a group with \<open>weight_decay = 0\<close> every gradient buffer holds after the call
  what it held before, whether the call raises or not; and after a call that returns, a
  gradient \<open>d\<close> in a group with \<open>weight_decay \<noteq> 0\<close> has become
  \<open>d + weight_decay * p.data\<close>, with \<open>p.data\<close> the exposed value before the call. A
  parameter without gradient still has none.
\<close>

theorem step_gradient_buffers:
  assumes "step None opt = (e, l, opt')" and "j < length opt"
  shows "(weight_decay (opt ! j) = 0 \<longrightarrow>
            map grad (params (opt' ! j)) = map grad (params (opt ! j))) \<and>
         (e = None \<longrightarrow>
            map grad (params (opt' ! j)) =
              map (\<lambda>p. map_option (\<lambda>d. if weight_decay (opt ! j) \<noteq> 0
                                         then add_scaled d (weight_decay (opt ! j)) (data p)
                                         else d) (grad p))
                  (params (opt ! j)))"
proof -
  from assms(1) have fe: "for_each step_group opt = (e, opt')" by (simp add: step_no_closure)
  have "map grad (params (opt' ! j)) = map grad (params (opt ! j))" if "weight_decay (opt ! j) = 0"
    using for_each_nth[OF fe assms(2)] step_group_grads_no_decay[OF that] by auto
  moreover have "map grad (params (opt' ! j)) =
              map (\<lambda>p. map_option (\<lambda>d. if weight_decay (opt ! j) \<noteq> 0
                                         then add_scaled d (weight_decay (opt ! j)) (data p)
                                         else d) (grad p))
                  (params (opt ! j))" if "e = None"
  proof -
    from fe that have "for_each step_group opt = (None, opt')" by simp
    from for_each_ok[OF this] assms(2) have "opt' ! j = snd (step_group (opt ! j))"
      and "fst (step_group (opt ! j)) = None" by simp_all
    then have "step_group (opt ! j) = (None, opt' ! j)" by (simp add: prod_eq_iff)
    then show ?thesis by (rule step_group_grads_ok)
  qed
  ultimately show ?thesis by blast
qed

theorem step_gradient_buffers_witness:
  "(case step None [\<lparr> lr = 1/10, momentum = 0, dampening = 0, weight_decay = 1, nesterov = False,
                       delta = 1, num_steps = 0, transported = True,
                       params = [set_grad (Some [1]) (new_param [1]), new_param [5]] \<rparr>] of
      (e, l, opt') \<Rightarrow> e = None \<and> map (map grad \<circ> params) opt' = [[Some [2], None]]) \<and>
   (case step None [\<lparr> lr = 1/10, momentum = 0, dampening = 0, weight_decay = 0, nesterov = False,
                       delta = 1, num_steps = 0, transported = True,
                       params = [set_grad (Some [1]) (new_param [1]), new_param [5]] \<rparr>] of
      (e, l, opt') \<Rightarrow> e = None \<and> map (map grad \<circ> params) opt' = [[Some [1], None]])"
proof -
  let ?X = "\<lambda>wd. [\<lparr> lr = 1/10, momentum = 0, dampening = 0, weight_decay = wd, nesterov = False,
                       delta = 1, num_steps = 0, transported = True,
                       params = [set_grad (Some [1]) (new_param [1]), new_param [5]] \<rparr>]"
  obtain e l opt' where r1: "step None (?X 1) = (e, l, opt')" by (cases "step None (?X 1)")
  obtain e0 l0 opt0 where r0: "step None (?X 0) = (e0, l0, opt0)" by (cases "step None (?X 0)")
  have e: "e = None" and len: "length opt' = 1"
    using r1 by (auto simp: new_param_def caller_defs step_defs tensor_defs)
  have e0: "e0 = None" and len0: "length opt0 = 1"
    using r0 by (auto simp: new_param_def caller_defs step_defs tensor_defs)
  have j: "0 < length (?X 1)" "0 < length (?X 0)" by simp_all
  from step_gradient_buffers[OF r1 j(1)] e
  have "map grad (params (opt' ! 0)) = [Some [2], None]"
    by (simp add: new_param_def set_grad_def add_scaled_def)
  moreover from step_gradient_buffers[OF r0 j(2)]
  have "map grad (params (opt0 ! 0)) = [Some [1], None]"
    by (simp add: new_param_def set_grad_def)
  ultimately show ?thesis
    using r1 r0 e e0 len len0 by (cases opt'; cases opt0) simp_all
qed

text \<open>
  The claim as the specification states it, that the gradient buffer is never written, fails
  with \<open>weight_decay = 1\<close>: the gradient 1.0 of a parameter of value 1.0 is 2.0 after the call.
\<close>

theorem step_overwrites_gradient:
  "step None [\<lparr> lr = 1/10, momentum = 0, dampening = 0, weight_decay = 1, nesterov = False,
                 delta = 1, num_steps = 0, transported = True,
                 params = [set_grad (Some [1]) (new_param [1])] \<rparr>] =
     (None, None,
      [\<lparr> lr = 1/10, momentum = 0, dampening = 0, weight_decay = 1, nesterov = False,
          delta = 1, num_steps = 1, transported = True,
          params = [\<lparr> data = [3/5], grad = Some [2], igt_velocity = Some [2],
                       true_params = Some [4/5], momentum_velocity = None \<rparr>] \<rparr>]) \<and>
   Some [2] \<noteq> Some [1::real]"
  by (simp add: new_param_def caller_defs step_defs tensor_defs)

subsection \<open>Parameters without gradient\<close>

text \<open>
  A parameter whose gradient is absent is skipped by \<open>step\<close>: its record, that is its
  exposed value and its three buffers, is after the call what it was before, also when the
  call raises at another parameter. The counter \<open>num_steps\<close> of its group is one more after
  a call that returns; a call that raises does not reach line 168.
\<close>

lemma step_skips_absent_gradient:
  assumes "step None opt = (e, l, opt')" and "j < length opt"
    and "i < length (params (opt ! j))" and "grad (params (opt ! j) ! i) = None"
  shows "params (opt' ! j) ! i = params (opt ! j) ! i \<and>
         (e = None \<longrightarrow> num_steps (opt' ! j) = num_steps (opt ! j) + 1)"
proof -
  from assms(1) have fe: "for_each step_group opt = (e, opt')" by (simp add: step_no_closure)
  have "params (opt' ! j) ! i = params (opt ! j) ! i"
    using for_each_nth[OF fe assms(2)] step_group_skips[OF assms(3,4)] by auto
  moreover have "num_steps (opt' ! j) = num_steps (opt ! j) + 1" if "e = None"
  proof -
    from fe that have "for_each step_group opt = (None, opt')" by simp
    from for_each_ok[OF this] assms(2) have "opt' ! j = snd (step_group (opt ! j))"
      and "fst (step_group (opt ! j)) = None" by simp_all
    then have "step_group (opt ! j) = (None, opt' ! j)" by (simp add: prod_eq_iff)
    then show ?thesis by (rule step_group_counts)
  qed
  ultimately show ?thesis by blast
qed

text \<open>
  Claim C7 asks that in every call of \<open>step\<close> a parameter without gradient keeps its state
  while \<open>num_steps\<close> of its group still increases by one. Two parameters of values 1.0 and
  5.0, \<open>lr = 0.1\<close>. The first call, without any gradient, returns and counts:
  \<open>num_steps = 1\<close>. In the second call the first parameter has no gradient and the second
  has the gradient 2.0 for the first time: the call raises \<open>KeyError('igt_velocity')\<close> at the
  second parameter, whose buffers were never created, and \<open>num_steps\<close> is still 1. The
  first parameter is unchanged, but the step is not counted. When the second parameter has its
  gradient from the first call on, the same two calls return and \<open>num_steps\<close> is 2.
\<close>

theorem absent_gradient_step_not_counted:
  "(case init optimizer_init [new_param [1], new_param [5]] (1/10) 0 0 0 False 1 of
      Inl e \<Rightarrow> False
    | Inr opt \<Rightarrow>
        training_loop [[[None, None]]] opt =
          (None,
           [\<lparr> lr = 1/10, momentum = 0, dampening = 0, weight_decay = 0, nesterov = False,
               delta = 1, num_steps = 1, transported = True,
               params = [new_param [1], new_param [5]] \<rparr>]) \<and>
        training_loop [[[None, None]], [[None, Some [2]]]] opt =
          (Some (KeyError ''igt_velocity''),
           [\<lparr> lr = 1/10, momentum = 0, dampening = 0, weight_decay = 0, nesterov = False,
               delta = 1, num_steps = 1, transported = True,
               params = [new_param [1],
                         \<lparr> data = [5], grad = Some [2], igt_velocity = None,
                            true_params = None, momentum_velocity = None \<rparr>] \<rparr>]) \<and>
        training_loop [[[None, Some [2]]], [[None, Some [2]]]] opt =
          (None,
           [\<lparr> lr = 1/10, momentum = 0, dampening = 0, weight_decay = 0, nesterov = False,
               delta = 1, num_steps = 2, transported = True,
               params = [new_param [1],
                         \<lparr> data = [21/5], grad = Some [2], igt_velocity = Some [2],
                            true_params = Some [23/5], momentum_velocity = None \<rparr>] \<rparr>]))"
  by (simp add: construct_defs caller_defs step_defs tensor_defs)

subsection \<open>Construction\<close>

text \<open>
  Claim C5. The constructor raises for \<open>weight_decay < 0\<close>, else for \<open>delta \<le> 0\<close>, else for
  \<open>nesterov\<close> with \<open>momentum \<le> 0\<close> or \<open>dampening \<noteq> 0\<close>, each time before the constructor of
  the base class is reached, so that nothing is constructed. With valid values of these none
  of the three checks raises: the result is the one of the base class constructor, called with
  the defaults.
\<close>

theorem init_validates:
  "(wd < 0 \<longrightarrow> init base ps l mom damp wd nest dl = Inl (Invalid_weight_decay wd)) \<and>
   (0 \<le> wd \<and> dl \<le> 0 \<longrightarrow> init base ps l mom damp wd nest dl = Inl (Invalid_delta dl)) \<and>
   (0 \<le> wd \<and> 0 < dl \<and> nest \<and> (mom \<le> 0 \<or> damp \<noteq> 0) \<longrightarrow>
      init base ps l mom damp wd nest dl = Inl Nesterov_requires_momentum) \<and>
   (0 \<le> wd \<and> 0 < dl \<and> (nest \<longrightarrow> 0 < mom \<and> damp = 0) \<longrightarrow>
      init base ps l mom damp wd nest dl =
        base ps \<lparr> lr = l, momentum = mom, dampening = damp, weight_decay = wd, nesterov = nest,
                   delta = dl, num_steps = 0, transported = True \<rparr>)"
  by (auto simp: init_def)

theorem init_validates_witness:
  "init optimizer_init [new_param [1]] (1/10) 0 0 (-1) False 1 = Inl (Invalid_weight_decay (-1)) \<and>
   init optimizer_init [new_param [1]] (1/10) 0 0 0 False 0 = Inl (Invalid_delta 0) \<and>
   init optimizer_init [new_param [1]] (1/10) 0 0 0 True 1 = Inl Nesterov_requires_momentum \<and>
   init optimizer_init [new_param [1]] (1/10) (9/10) (1/2) 0 True 1 = Inl Nesterov_requires_momentum \<and>
   init optimizer_init [new_param [1]] (1/10) (9/10) 0 0 True 1 =
     Inr [\<lparr> lr = 1/10, momentum = 9/10, dampening = 0, weight_decay = 0, nesterov = True,
              delta = 1, num_steps = 0, transported = True, params = [new_param [1]] \<rparr>]"
  using
    init_validates [where wd = "-1" and dl = 1 and nest = False and mom = 0 and damp = 0
      and base = optimizer_init and ps = "[new_param [1]]" and l = "1/10"]
    init_validates [where wd = 0 and dl = 0 and nest = False and mom = 0 and damp = 0
      and base = optimizer_init and ps = "[new_param [1]]" and l = "1/10"]
    init_validates [where wd = 0 and dl = 1 and nest = True and mom = 0 and damp = 0
      and base = optimizer_init and ps = "[new_param [1]]" and l = "1/10"]
    init_validates [where wd = 0 and dl = 1 and nest = True and mom = "9/10" and damp = "1/2"
      and base = optimizer_init and ps = "[new_param [1]]" and l = "1/10"]
    init_validates [where wd = 0 and dl = 1 and nest = True and mom = "9/10" and damp = 0
      and base = optimizer_init and ps = "[new_param [1]]" and l = "1/10"]
  by (simp add: optimizer_init_def)

text \<open>
  Claim C6, as the code has it. The constructor has no check of \<open>lr\<close>: every real number,
  also zero or a negative one, is stored in the group as it is given, when the other
  hyperparameters are valid and the list of parameters is not empty.
\<close>

theorem init_stores_any_lr:
  assumes "0 \<le> wd" and "0 < dl" and "nest \<longrightarrow> 0 < mom \<and> damp = 0" and "ps \<noteq> []"
  shows "init optimizer_init ps l mom damp wd nest dl =
           Inr [\<lparr> lr = l, momentum = mom, dampening = damp, weight_decay = wd, nesterov = nest,
                    delta = dl, num_steps = 0, transported = True, params = ps \<rparr>]"
  using assms by (auto simp: init_def optimizer_init_def)

theorem init_stores_any_lr_witness:
  "init optimizer_init [new_param [1]] 0 0 0 0 False 1 =
     Inr [\<lparr> lr = 0, momentum = 0, dampening = 0, weight_decay = 0, nesterov = False,
              delta = 1, num_steps = 0, transported = True, params = [new_param [1]] \<rparr>]"
proof -
  have "(0::real) \<le> 0" and "(0::real) < 1" and "False \<longrightarrow> (0::real) < 0 \<and> (0::real) = 0"
    and "[new_param [1]] \<noteq> []" by simp_all
  then show ?thesis by (rule init_stores_any_lr)
qed

text \<open>
  The claim as the specification states it, that \<open>lr \<le> 0\<close> is refused, fails for
  \<open>lr = -1\<close>: the optimizer is constructed.
\<close>

theorem init_accepts_nonpositive_lr:
  "init optimizer_init [new_param [1]] (-1) 0 0 0 False 1 =
     Inr [\<lparr> lr = -1, momentum = 0, dampening = 0, weight_decay = 0, nesterov = False,
              delta = 1, num_steps = 0, transported = True, params = [new_param [1]] \<rparr>]"
  by (simp add: init_def optimizer_init_def)

subsection \<open>Switching to evaluation before the first step\<close>

text \<open>
  Claim C10. \<open>eval\<close> on a group that is \<open>transported\<close>, has \<open>num_steps = 0\<close>, has at
  least one parameter, and none of whose parameters has a \<open>true_params\<close> buffer yet, raises
  \<open>KeyError('true_params')\<close> at the first parameter. Nothing was copied at that point and
  the flag is not changed: the optimizer is left as it was.
\<close>

theorem eval_without_state_raises:
  assumes "transported g" and "num_steps g = 0" and "params g \<noteq> []"
    and "\<forall>p \<in> set (params g). true_params p = None"
  shows "eval (g # gs) = (Some (KeyError ''true_params''), g # gs)"
proof -
  from assms(3) obtain p ps where ps: "params g = p # ps" by (cases "params g") auto
  with assms(4) have "eval_param p = (Some (KeyError ''true_params''), p)"
    by (simp add: eval_param_def)
  then have "for_each eval_param (params g) = (Some (KeyError ''true_params''), params g)"
    by (simp add: ps)
  then have "eval_group g = (Some (KeyError ''true_params''), g)"
    using assms(1) by (simp add: eval_group_def)
  then show ?thesis by (simp add: eval_def)
qed

theorem eval_without_state_raises_witness:
  "eval [\<lparr> lr = 1/10, momentum = 0, dampening = 0, weight_decay = 0, nesterov = False,
            delta = 1, num_steps = 0, transported = True, params = [new_param [1], new_param [2, 3]] \<rparr>] =
     (Some (KeyError ''true_params''),
      [\<lparr> lr = 1/10, momentum = 0, dampening = 0, weight_decay = 0, nesterov = False,
            delta = 1, num_steps = 0, transported = True, params = [new_param [1], new_param [2, 3]] \<rparr>])"
proof -
  let ?g = "\<lparr> lr = 1/10, momentum = 0, dampening = 0, weight_decay = 0, nesterov = False,
            delta = 1, num_steps = 0, transported = True, params = [new_param [1], new_param [2, 3]] \<rparr>"
  have "transported ?g" and "num_steps ?g = 0" and "params ?g \<noteq> []"
    and "\<forall>p \<in> set (params ?g). true_params p = None"
    by (simp_all add: new_param_def)
  then show ?thesis by (rule eval_without_state_raises)
qed

text \<open>
  Claim C8 asks that \<open>train\<close> followed by \<open>eval\<close> at \<open>num_steps = 0\<close> completes and leaves
  the exposed values as they are. On a freshly constructed optimizer \<open>train\<close> does nothing,
  guarded by \<open>num_steps > 0\<close>; \<open>eval\<close> has no such guard and raises
  \<open>KeyError('true_params')\<close>. The exposed value is unchanged, but the call does not complete.
\<close>

theorem train_eval_before_first_step_raises:
  "(case init optimizer_init [new_param [1]] (1/10) 0 0 0 False 1 of
      Inl e \<Rightarrow> False
    | Inr opt \<Rightarrow> train opt = (None, opt) \<and> eval opt = (Some (KeyError ''true_params''), opt))"
  by (simp add: construct_defs mode_defs)

subsection \<open>Weight decay\<close>

text \<open>
  Claim C3, as the code has it. In a call of \<open>step\<close> that returns, for a parameter with
  gradient \<open>d\<close> in a group with \<open>weight_decay \<noteq> 0\<close>, the effective gradient is
  \<open>d + weight_decay * p.data\<close>: weight decay is scaled from the exposed value \<open>p.data\<close> as it
  is before the call, not from the buffer \<open>true_params\<close>. The gradient buffer holds the
  effective gradient after the call, and the velocity update uses it: at \<open>num_steps = 0\<close>
  it is added to \<open>igt_velocity\<close> (zero when the buffer is created), otherwise
  \<open>igt_velocity\<close> becomes \<open>gamma * igt_velocity + (1 - gamma) *\<close> the effective gradient, with
  \<open>gamma = num_steps / (num_steps + delta)\<close>.
\<close>

theorem weight_decay_from_exposed_value:
  assumes "step None opt = (None, l, opt')" and "j < length opt"
    and "weight_decay (opt ! j) \<noteq> 0"
    and "i < length (params (opt ! j))" and "grad (params (opt ! j) ! i) = Some d"
  shows "(let g = opt ! j; p = params g ! i; p' = params (opt' ! j) ! i;
              eg = add_scaled d (weight_decay g) (data p);
              gamma = real_of_int (num_steps g) / (real_of_int (num_steps g) + delta g)
          in grad p' = Some eg \<and>
             (num_steps g = 0 \<longrightarrow>
                igt_velocity p' =
                  Some (add_t (case igt_velocity p of None \<Rightarrow> zeros_like (data p) | Some v \<Rightarrow> v) eg)) \<and>
             (num_steps g \<noteq> 0 \<longrightarrow>
                (\<exists>iv. igt_velocity p = Some iv \<and>
                      igt_velocity p' = Some (add_scaled (mul_t iv gamma) (1 - gamma) eg))))"
proof -
  let ?g = "opt ! j" and ?g' = "opt' ! j"
  let ?p = "params ?g ! i" and ?p' = "params ?g' ! i"
  let ?eg = "add_scaled d (weight_decay ?g) (data ?p)"
  have sg: "step_group ?g = (None, ?g')" using assms(1,2) by (rule step_ok_group)
  from step_group_ok[OF sg] obtain gm ft where
    co: "coefficients (num_steps ?g) (delta ?g) = Inr (gm, ft)" and
    fe: "for_each (step_param ?g gm ft) (params ?g) = (None, params ?g')" by blast
  have gm: "gm = real_of_int (num_steps ?g) / (real_of_int (num_steps ?g) + delta ?g)"
    using co by (rule coefficients_gamma)
  from for_each_ok[OF fe] assms(4) have "?p' = snd (step_param ?g gm ft ?p)"
    and "fst (step_param ?g gm ft ?p) = None" by simp_all
  then have sp: "step_param ?g gm ft ?p = (None, ?p')" by (simp add: prod_eq_iff)
  have "grad ?p' = Some ?eg"
    using step_param_grad[of ?g gm ft ?p] sp assms(3,5) by simp
  with step_param_velocity[OF sp assms(5)] gm assms(3) show ?thesis
    by (simp add: Let_def)
qed

theorem weight_decay_from_exposed_value_witness:
  "(case step None [\<lparr> lr = 1/10, momentum = 0, dampening = 0, weight_decay = 1, nesterov = False,
                       delta = 1, num_steps = 0, transported = True,
                       params = [set_grad (Some [1]) (new_param [1])] \<rparr>] of
      (e, l, opt') \<Rightarrow> e = None \<and> map (map grad \<circ> params) opt' = [[Some [2]]] \<and>
                      map (map igt_velocity \<circ> params) opt' = [[Some [2]]]) \<and>
   (case step None [\<lparr> lr = 1/10, momentum = 0, dampening = 0, weight_decay = 1, nesterov = False,
                       delta = 1, num_steps = 1, transported = True,
                       params = [\<lparr> data = [3/5], grad = Some [0], igt_velocity = Some [2],
                                    true_params = Some [4/5], momentum_velocity = None \<rparr>] \<rparr>] of
      (e, l, opt') \<Rightarrow> e = None \<and> map (map grad \<circ> params) opt' = [[Some [3/5]]] \<and>
                      map (map igt_velocity \<circ> params) opt' = [[Some [13/10]]])"
proof -
  let ?X0 = "[\<lparr> lr = 1/10, momentum = 0, dampening = 0, weight_decay = 1, nesterov = False,
                       delta = 1, num_steps = 0, transported = True,
                       params = [set_grad (Some [1]) (new_param [1])] \<rparr>]"
  let ?X1 = "[\<lparr> lr = 1/10, momentum = 0, dampening = 0, weight_decay = 1, nesterov = False,
                       delta = 1, num_steps = 1, transported = True,
                       params = [\<lparr> data = [3/5], grad = Some [0], igt_velocity = Some [2],
                                    true_params = Some [4/5], momentum_velocity = None \<rparr>] \<rparr>]"
  obtain e0 l0 opt0 where r0: "step None ?X0 = (e0, l0, opt0)" by (cases "step None ?X0")
  obtain e1 l1 opt1 where r1: "step None ?X1 = (e1, l1, opt1)" by (cases "step None ?X1")
  have e0: "e0 = None" and len0: "length opt0 = 1" and lp0: "length (params (opt0 ! 0)) = 1"
    using r0 by (auto simp: new_param_def caller_defs step_defs tensor_defs)
  have e1: "e1 = None" and len1: "length opt1 = 1" and lp1: "length (params (opt1 ! 0)) = 1"
    using r1 by (auto simp: step_defs tensor_defs)
  have a0: "grad (params (opt0 ! 0) ! 0) = Some [2] \<and> igt_velocity (params (opt0 ! 0) ! 0) = Some [2]"
    using weight_decay_from_exposed_value[of ?X0 l0 opt0 0 0 "[1]"] r0 e0
    by (simp add: new_param_def set_grad_def tensor_defs Let_def)
  have a1: "grad (params (opt1 ! 0) ! 0) = Some [3/5] \<and> igt_velocity (params (opt1 ! 0) ! 0) = Some [13/10]"
    using weight_decay_from_exposed_value[of ?X1 l1 opt1 0 0 "[0]"] r1 e1
    by (simp add: tensor_defs Let_def)
  obtain g0 where o0: "opt0 = [g0]" using len0 by (cases opt0) auto
  obtain g1 where o1: "opt1 = [g1]" using len1 by (cases opt1) auto
  obtain p0 where p0: "params g0 = [p0]" using lp0 o0 by (cases "params g0") auto
  obtain p1 where p1: "params g1 = [p1]" using lp1 o1 by (cases "params g1") auto
  show ?thesis
    using r0 r1 e0 e1 a0 a1 by (simp add: o0 o1 p0 p1)
qed

text \<open>
  The claim as the specification states it, with \<open>true_params\<close> in place of \<open>p.data\<close>, fails
  at the second step of a run with \<open>weight_decay = 1\<close>, \<open>lr = 0.1\<close>, \<open>delta = 1\<close>, one
  parameter of value 1.0 and the gradients 1.0 and 0.0. After the first step \<open>true_params\<close>
  is 0.8 and \<open>p.data\<close> is 0.6. The second step leaves 0.6 in the gradient buffer and 1.3 in
  \<open>igt_velocity\<close>; from \<open>true_params\<close> they would be 0.8 and 1.4.
\<close>

theorem weight_decay_not_from_true_params:
  "(case init optimizer_init [new_param [1]] (1/10) 0 0 1 False 1 of
      Inl e \<Rightarrow> False
    | Inr opt \<Rightarrow>
        training_loop [[[Some [1]]]] opt =
          (None,
           [\<lparr> lr = 1/10, momentum = 0, dampening = 0, weight_decay = 1, nesterov = False,
               delta = 1, num_steps = 1, transported = True,
               params = [\<lparr> data = [3/5], grad = Some [2], igt_velocity = Some [2],
                            true_params = Some [4/5], momentum_velocity = None \<rparr>] \<rparr>]) \<and>
        training_loop [[[Some [1]]], [[Some [0]]]] opt =
          (None,
           [\<lparr> lr = 1/10, momentum = 0, dampening = 0, weight_decay = 1, nesterov = False,
               delta = 1, num_steps = 2, transported = True,
               params = [\<lparr> data = [41/100], grad = Some [3/5], igt_velocity = Some [13/10],
                            true_params = Some [67/100], momentum_velocity = None \<rparr>] \<rparr>])) \<and>
   add_scaled [0] 1 [4/5] \<noteq> [3/5] \<and>
   add_scaled (mul_t [2] (1/2)) (1 - 1/2) (add_scaled [0] 1 [4/5]) \<noteq> [13/10]"
  by (simp add: construct_defs caller_defs step_defs tensor_defs)

subsection \<open>A parameter whose first gradient comes late\<close>

text \<open>
  Claim C2 asks that the state of a parameter is created in the first call of \<open>step\<close> in
  which the parameter has a gradient, also when \<open>num_steps\<close> of the group is already
  positive. The buffers are created only in the branch \<open>num_steps == 0\<close>. A parameter
  without gradient in the first call and with the gradient 2.0 in the second is skipped by
  the first call, which counts a step, and the second call raises
  \<open>KeyError('igt_velocity')\<close> in the other branch: no state is created.
\<close>

theorem late_first_gradient_raises:
  "(case init optimizer_init [new_param [1]] (1/10) 0 0 0 False 1 of
      Inl e \<Rightarrow> False
    | Inr opt \<Rightarrow>
        training_loop [[[None]], [[Some [2]]]] opt =
          (Some (KeyError ''igt_velocity''),
           [\<lparr> lr = 1/10, momentum = 0, dampening = 0, weight_decay = 0, nesterov = False,
               delta = 1, num_steps = 1, transported = True,
               params = [\<lparr> data = [1], grad = Some [2], igt_velocity = None,
                            true_params = None, momentum_velocity = None \<rparr>] \<rparr>]))"
  by (simp add: construct_defs caller_defs step_defs tensor_defs)

subsection \<open>Heavyball and Nesterov\<close>




end
